theory Spec2Isabelle
  imports Main "HOL-Library.AList" "HOL-Library.Char_ord" "HOL-Library.List_Lexorder"
begin

section \<open>Go values that the program relies on\<close>

text \<open>
  Go strings are byte sequences: \<open>string\<close>. An \<open>error\<close> value is one of the shapes this
  program builds or receives: \<open>errors.New\<close> and \<open>fmt.Errorf\<close> without \<open>%w\<close> give a plain
  message; \<open>fmt.Errorf\<close> with \<open>%w\<close> keeps its format and the wrapped error;
  \<open>strconv.Atoi\<close> gives a \<open>NumError\<close> (function, input, reason); anything a backend
  library returns is opaque (\<open>LibError\<close>). The nil error is \<open>None\<close> of \<open>err option\<close>.
\<close>

datatype err =
    ErrorString string
  | WrapError string err
  | NumError string string string
  | LibError string

text \<open>A run-time panic of an index expression: the index and the length.\<close>

datatype panic = IndexOutOfRange nat nat

datatype 'a outcome = Panic panic | Done 'a

text \<open>The index expression \<open>xs[i]\<close>: Go panics when \<open>i\<close> is not below \<open>len(xs)\<close>.\<close>

definition index :: "'a list \<Rightarrow> nat \<Rightarrow> panic + 'a" where
  "index xs i = (if i < length xs then Inr (xs ! i) else Inl (IndexOutOfRange i (length xs)))"

subsection \<open>fmt.Sprintf on string operands\<close>

text \<open>
  The formats of this program use the verb \<open>%s\<close> on string operands only. The model covers
  \<open>%s\<close>, \<open>%v\<close> and \<open>%%\<close>, a missing operand, a format that ends in \<open>%\<close> and operands left
  over; any other verb letter is rendered as fmt renders a verb that does not apply to a
  string. Flags, widths and precisions are not modelled.
\<close>

fun extraOperands :: "string list \<Rightarrow> string" where
  "extraOperands [] = []"
| "extraOperands (a # as) =
     ''%!(EXTRA '' @ ''string='' @ a @ concat (map (\<lambda>x. '', string='' @ x) as) @ '')''"

fun Sprintf :: "string \<Rightarrow> string list \<Rightarrow> string" where
  "Sprintf [] args = extraOperands args"
| "Sprintf [c] args =
     (if c = CHR ''%'' then ''%!(NOVERB)'' @ extraOperands args else c # extraOperands args)"
| "Sprintf (c # v # fs) args =
     (if c \<noteq> CHR ''%'' then c # Sprintf (v # fs) args
      else if v = CHR ''%'' then CHR ''%'' # Sprintf fs args
      else (case args of
              [] \<Rightarrow> ''%!'' @ [v] @ ''(MISSING)'' @ Sprintf fs []
            | a # as \<Rightarrow>
                if v = CHR ''s'' \<or> v = CHR ''v'' then a @ Sprintf fs as
                else ''%!'' @ [v] @ ''(string='' @ a @ '')'' @ Sprintf fs as))"

subsection \<open>strconv.Atoi\<close>

text \<open>
  \<open>strconv.Atoi\<close> reads an optional sign and then decimal digits, at least one, and
  nothing else; the value must fit Go's \<open>int\<close>, 64 bits wide here. Its error is a
  \<open>NumError\<close> with the function name "Atoi", the input, and the reason.

  The digits are read from left to right, as the loop of \<open>ParseUint\<close> does for base 10:
  a byte that is not a digit ends the scan with "invalid syntax"; a value that leaves
  64 unsigned bits ends it with "value out of range", before the bytes that follow are
  looked at. \<open>1844674407370955162\<close> is \<open>maxUint64/10 + 1\<close>, the cutoff from which
  a further digit overflows, and \<open>18446744073709551615\<close> is \<open>maxUint64\<close>.
\<close>

definition isDigit :: "char \<Rightarrow> bool" where
  "isDigit c = (CHR ''0'' \<le> c \<and> c \<le> CHR ''9'')"

fun ParseUint :: "string \<Rightarrow> nat \<Rightarrow> string + nat" where
  "ParseUint [] n = Inr n"
| "ParseUint (c # s) n =
     (if isDigit c then
        (if 1844674407370955162 \<le> n then Inl ''value out of range''
         else if 18446744073709551615 < n * 10 + (of_char c - 48) then Inl ''value out of range''
         else ParseUint s (n * 10 + (of_char c - 48)))
      else Inl ''invalid syntax'')"

text \<open>
  The sign is taken off first; nothing after it is a syntax error. A value read without
  error must lie in the range of a signed 64-bit integer: at most \<open>2^63 - 1\<close>, or at most
  \<open>2^63\<close> behind a minus sign (\<open>9223372036854775808\<close> is \<open>2^63\<close>).
\<close>

definition Atoi :: "string \<Rightarrow> err + int" where
  "Atoi s =
     (case s of
        [] \<Rightarrow> Inl (NumError ''Atoi'' s ''invalid syntax'')
      | c # r \<Rightarrow>
          (let digits = (if c = CHR ''-'' then r else if c = CHR ''+'' then r else s)
           in if digits = [] then Inl (NumError ''Atoi'' s ''invalid syntax'')
              else (case ParseUint digits 0 of
                      Inl reason \<Rightarrow> Inl (NumError ''Atoi'' s reason)
                    | Inr un \<Rightarrow>
                        if c = CHR ''-''
                        then (if 9223372036854775808 < un
                              then Inl (NumError ''Atoi'' s ''value out of range'')
                              else Inr (- int un))
                        else (if 9223372036854775808 \<le> un
                              then Inl (NumError ''Atoi'' s ''value out of range'')
                              else Inr (int un)))))"

section \<open>net/url: query values\<close>

text \<open>
  The driver reads and rewrites the query part of its connection URL with \<open>URL.Query\<close>,
  \<open>Values.Get\<close>, \<open>Values.Set\<close> and \<open>Values.Encode\<close> of Go's \<open>net/url\<close>. \<open>Values\<close> is a
  \<open>map[string][]string\<close>: here an association list with one entry per key.
\<close>

type_synonym Values = "(string \<times> string list) list"

definition ishex :: "char \<Rightarrow> bool" where
  "ishex ch = (ch \<in> set ''0123456789abcdefABCDEF'')"

definition unhex :: "char \<Rightarrow> nat" where
  "unhex ch =
     (if CHR ''0'' \<le> ch \<and> ch \<le> CHR ''9'' then of_char ch - 48
      else if CHR ''a'' \<le> ch \<and> ch \<le> CHR ''f'' then of_char ch - 87
      else if CHR ''A'' \<le> ch \<and> ch \<le> CHR ''F'' then of_char ch - 55
      else 0)"

text \<open>
  \<open>QueryUnescape\<close>: \<open>%XY\<close> becomes the byte with hexadecimal digits \<open>XY\<close>, \<open>+\<close> becomes a
  blank; a \<open>%\<close> without two hexadecimal digits after it is an error (\<open>None\<close>).
\<close>

fun QueryUnescape :: "string \<Rightarrow> string option" where
  "QueryUnescape [] = Some []"
| "QueryUnescape (ch # s) =
     (if ch = CHR ''%'' then
        (case s of
           h1 # h2 # r \<Rightarrow>
             if ishex h1 \<and> ishex h2
             then map_option ((#) (char_of (unhex h1 * 16 + unhex h2))) (QueryUnescape r)
             else None
         | _ \<Rightarrow> None)
      else map_option ((#) (if ch = CHR ''+'' then CHR '' '' else ch)) (QueryUnescape s))"

text \<open>
  \<open>QueryEscape\<close>: letters, digits and \<open>- _ . ~\<close> stay, a blank becomes \<open>+\<close>, every other
  byte becomes \<open>%XY\<close> with upper-case hexadecimal digits.
\<close>

definition isAlnum :: "char \<Rightarrow> bool" where
  "isAlnum ch =
     (if CHR ''a'' \<le> ch \<and> ch \<le> CHR ''z'' then True
      else if CHR ''A'' \<le> ch \<and> ch \<le> CHR ''Z'' then True
      else CHR ''0'' \<le> ch \<and> ch \<le> CHR ''9'')"

definition shouldEscape :: "char \<Rightarrow> bool" where
  "shouldEscape ch = (if isAlnum ch then False else if ch \<in> set ''-_.~'' then False else True)"

definition escapeByte :: "char \<Rightarrow> string" where
  "escapeByte ch =
     (if ch = CHR '' '' then ''+''
      else if shouldEscape ch
      then [CHR ''%'', ''0123456789ABCDEF'' ! (of_char ch div 16), ''0123456789ABCDEF'' ! (of_char ch mod 16)]
      else [ch])"

definition QueryEscape :: "string \<Rightarrow> string" where
  "QueryEscape s = concat (map escapeByte s)"

text \<open>
  \<open>strings.Cut\<close> with a one-byte separator: the text before the first separator and the
  text after it; all of the text and nothing when there is no separator.
\<close>

fun Cut :: "string \<Rightarrow> char \<Rightarrow> string \<times> string" where
  "Cut [] sep = ([], [])"
| "Cut (ch # s) sep =
     (if ch = sep then ([], s) else (case Cut s sep of (before, after) \<Rightarrow> (ch # before, after)))"

text \<open>
  \<open>ParseQuery\<close> walks the pieces between \<open>&\<close> signs in order. A piece with a semicolon,
  an empty piece, and a piece whose key or value does not unescape are skipped (the error
  they raise is dropped by \<open>URL.Query\<close>); every other piece appends its value to the
  values of its key.
\<close>

fun pieces :: "string \<Rightarrow> string list" where
  "pieces [] = [[]]"
| "pieces (ch # s) =
     (if ch = CHR ''&'' then [] # pieces s
      else (case pieces s of [] \<Rightarrow> [[ch]] | p # ps \<Rightarrow> (ch # p) # ps))"

definition valuesOf :: "Values \<Rightarrow> string \<Rightarrow> string list" where
  "valuesOf v key = (case map_of v key of None \<Rightarrow> [] | Some vs \<Rightarrow> vs)"

definition addPiece :: "Values \<Rightarrow> string \<Rightarrow> Values" where
  "addPiece m piece =
     (if CHR '';'' \<in> set piece then m
      else if piece = [] then m
      else (case Cut piece CHR ''='' of
              (k, v) \<Rightarrow>
                (case QueryUnescape k of
                   None \<Rightarrow> m
                 | Some key \<Rightarrow>
                     (case QueryUnescape v of
                        None \<Rightarrow> m
                      | Some val \<Rightarrow> AList.update key (valuesOf m key @ [val]) m))))"

definition ParseQuery :: "string \<Rightarrow> Values" where
  "ParseQuery query = foldl addPiece [] (pieces query)"

text \<open>\<open>Get\<close>: the first value of the key, or the empty string when there is none.\<close>

definition Values_Get :: "Values \<Rightarrow> string \<Rightarrow> string" where
  "Values_Get v key = (case valuesOf v key of [] \<Rightarrow> [] | x # xs \<Rightarrow> x)"

text \<open>\<open>Set\<close>: the key gets the single value, replacing the values it had.\<close>

definition Values_Set :: "Values \<Rightarrow> string \<Rightarrow> string \<Rightarrow> Values" where
  "Values_Set v key val = AList.update key [val] v"

text \<open>
  \<open>Encode\<close>: the pairs \<open>key=value\<close>, both escaped, sorted by key, with \<open>&\<close> between them.
\<close>

definition Values_Encode :: "Values \<Rightarrow> string" where
  "Values_Encode v =
     (case concat (map (\<lambda>(k, vs). map (\<lambda>x. QueryEscape k @ ''='' @ QueryEscape x) vs)
                    (sort_key fst v)) of
        [] \<Rightarrow> []
      | p # ps \<Rightarrow> p @ concat (map (\<lambda>q. CHR ''&'' # q) ps))"

text \<open>
  \<open>url.URL\<close>, with the fields that a connection string fills. Parsing a string into a
  URL and printing a URL are the library's and are parameters below; the driver itself
  touches \<open>RawQuery\<close> only.
\<close>

record URL =
  Scheme :: string
  Opaque :: string
  User :: string
  Host :: string
  Path :: string
  RawQuery :: string
  Fragment :: string

definition URL_Query :: "URL \<Rightarrow> Values" where
  "URL_Query u = ParseQuery (RawQuery u)"

section \<open>core: structure types and table options\<close>

text \<open>
  Modelled from the spec: the declaration of \<open>core.StructureType\<close> is not among the
  sources; the spec gives a Structure node's kind as Table, View, MaterializedView,
  StreamingTable, Managed or None (the unknown value).
\<close>

datatype StructureType =
    StructureTypeNone
  | StructureTypeTable
  | StructureTypeView
  | StructureTypeMaterializedView
  | StructureTypeStreamingTable
  | StructureTypeManaged

text \<open>
  \<open>core.TableOptions\<close>: the schema name and the table name that address one table.
\<close>

record TableOptions =
  Schema :: string
  Table :: string

section \<open>main: the handlers of the host functions\<close>

text \<open>
  The handlers share \<open>clientMap\<close>, a map from the caller's id to a \<open>clients.Client\<close>.
  A client is an interface value of a package that is not among the sources, so the
  client type \<open>'c\<close>, the row type \<open>'r\<close> and what the constructors and methods return
  are parameters: \<open>clients.NewPostgres\<close>, \<open>clients.NewRedis\<close>, \<open>Client.Execute\<close>,
  \<open>Client.Schema\<close>, and \<open>Set\<close> of the buffer output made by \<open>output.NewBufferOutput\<close>
  for a buffer number.
\<close>

record ('c, 'r) clients =
  clients_NewPostgres :: "string \<Rightarrow> err + 'c"
  clients_NewRedis :: "string \<Rightarrow> err + 'c"
  Client_Execute :: "'c \<Rightarrow> string \<Rightarrow> err + 'r"
  Client_Schema :: "'c \<Rightarrow> err + (string \<rightharpoonup> string list)"
  Output_Set :: "int \<Rightarrow> 'r \<Rightarrow> err option"

text \<open>
  What a handler does to the world outside the map is kept as the list of its calls, in
  order: the log line, the constructors, the methods of a client, the write to a buffer.
  \<open>Close\<close> is a method of a client too; only the teardown loop of \<open>main\<close> calls it, no
  handler does.
\<close>

datatype ('c, 'r) call =
    Log_Print string
  | Call_NewPostgres string
  | Call_NewRedis string
  | Call_Execute 'c string
  | Call_Schema 'c
  | Call_Close 'c
  | Call_Set int 'r

record ('c, 'r) plugin_state =
  clientMap :: "string \<rightharpoonup> 'c"
  calls :: "('c, 'r) call list"

definition record_call :: "('c, 'r) call \<Rightarrow> ('c, 'r) plugin_state \<Rightarrow> ('c, 'r) plugin_state" where
  "record_call c st = st\<lparr>calls := calls st @ [c]\<rparr>"

text \<open>
  The switch of \<open>Dbee_register_client\<close> on the type string: the constructor of the type,
  or the error of the default branch, whose format puts the type between double quotes.
\<close>

definition unsupportedFormat :: string where
  "unsupportedFormat = ''database of type '' @ [CHR 0x22] @ ''%s'' @ [CHR 0x22] @ '' is not supported''"

definition new_client ::
  "('c, 'r) clients \<Rightarrow> ('c, 'r) plugin_state \<Rightarrow> string \<Rightarrow> string \<Rightarrow> (err + 'c) \<times> ('c, 'r) plugin_state"
where
  "new_client lib st typ url =
     (if typ = ''postgres'' then (clients_NewPostgres lib url, record_call (Call_NewPostgres url) st)
      else if typ = ''redis'' then (clients_NewRedis lib url, record_call (Call_NewRedis url) st)
      else (Inl (ErrorString (Sprintf unsupportedFormat [typ])), st))"

definition Dbee_register_client ::
  "('c, 'r) clients \<Rightarrow> ('c, 'r) plugin_state \<Rightarrow> string list
   \<Rightarrow> err option outcome \<times> ('c, 'r) plugin_state"
where
  "Dbee_register_client lib st0 args =
     (let st = record_call (Log_Print ''calling Dbee_register_client'') st0
      in if length args < 3
         then (Done (Some (ErrorString ''not enough arguments passed to Dbee_register_client'')), st)
         else
           (case index args 0 of Inl p \<Rightarrow> (Panic p, st) | Inr cid \<Rightarrow>
           (case index args 1 of Inl p \<Rightarrow> (Panic p, st) | Inr url \<Rightarrow>
           (case index args 2 of Inl p \<Rightarrow> (Panic p, st) | Inr typ \<Rightarrow>
           (case new_client lib st typ url of
              (Inl e, st') \<Rightarrow> (Done (Some e), st')
            | (Inr client, st') \<Rightarrow>
                (Done None, st'\<lparr>clientMap := (clientMap st')(cid \<mapsto> client)\<rparr>))))))"

definition Dbee_execute ::
  "('c, 'r) clients \<Rightarrow> ('c, 'r) plugin_state \<Rightarrow> string list
   \<Rightarrow> err option outcome \<times> ('c, 'r) plugin_state"
where
  "Dbee_execute lib st0 args =
     (let st = record_call (Log_Print ''calling Dbee_execute'') st0
      in if length args < 2
         then (Done (Some (ErrorString ''not enough arguments passed to Dbee_execute'')), st)
         else
           (case index args 0 of Inl p \<Rightarrow> (Panic p, st) | Inr cid \<Rightarrow>
           (case index args 1 of Inl p \<Rightarrow> (Panic p, st) | Inr query \<Rightarrow>
           (case index args 2 of Inl p \<Rightarrow> (Panic p, st) | Inr arg2 \<Rightarrow>
           (case Atoi arg2 of Inl e \<Rightarrow> (Done (Some e), st) | Inr bufnr \<Rightarrow>
           (case clientMap st cid of
              None \<Rightarrow>
                (Done (Some (ErrorString (Sprintf ''client with id %s not registered'' [cid]))), st)
            | Some client \<Rightarrow>
                (let st1 = record_call (Call_Execute client query) st
                 in case Client_Execute lib client query of
                      Inl e \<Rightarrow> (Done (Some e), st1)
                    | Inr rows \<Rightarrow>
                        (Done (Output_Set lib bufnr rows),
                         record_call (Call_Set bufnr rows) st1))))))))"

definition Dbee_get_schema ::
  "('c, 'r) clients \<Rightarrow> ('c, 'r) plugin_state \<Rightarrow> string list
   \<Rightarrow> (err + (string \<rightharpoonup> string list)) outcome \<times> ('c, 'r) plugin_state"
where
  "Dbee_get_schema lib st0 args =
     (let st = record_call (Log_Print ''calling Dbee_get_schema'') st0
      in if length args < 1
         then (Done (Inl (ErrorString ''not enough arguments passed to Dbee_get_schema'')), st)
         else
           (case index args 0 of Inl p \<Rightarrow> (Panic p, st) | Inr cid \<Rightarrow>
           (case clientMap st cid of
              None \<Rightarrow>
                (Done (Inl (ErrorString (Sprintf ''client with id %s not registered'' [cid]))), st)
            | Some client \<Rightarrow>
                (let st1 = record_call (Call_Schema client) st
                 in case Client_Schema lib client of
                      Inl e \<Rightarrow> (Done (Inl e), st1)
                    | Inr schema \<Rightarrow> (Done (Inr schema), st1)))))"

text \<open>
  A library for concrete runs: clients are numbers, rows are lists of strings; the
  constructors succeed, a query returns one row, the schema has one table.
\<close>

definition demo_clients :: "(nat, string list) clients" where
  "demo_clients =
     \<lparr> clients_NewPostgres = (\<lambda>url. Inr 1),
       clients_NewRedis = (\<lambda>url. Inr 2),
       Client_Execute = (\<lambda>c q. Inr [''1'']),
       Client_Schema = (\<lambda>c. Inr [''public'' \<mapsto> [''users'']]),
       Output_Set = (\<lambda>b rows. None) \<rparr>"

definition demo_state :: "(nat, string list) plugin_state" where
  "demo_state = \<lparr> clientMap = [''conn1'' \<mapsto> 7], calls = [] \<rparr>"

section \<open>adapters: the Databricks driver\<close>

text \<open>
  Modelled from the spec: \<open>core.ResultStream\<close> is not among the sources. The spec gives
  it as a one-directional sequence of rows read with "has more" and "produce the next row
  or fail", a row being a sequence of dynamically typed values. Here: the list of what
  the successive calls of \<open>Next\<close> return; \<open>HasNext\<close> is "the list is not empty".
\<close>

datatype any = AString string | AInt int | ABool bool | ANil

type_synonym ResultStream = "(err + any list) list"

text \<open>The name that the verb \<open>%T\<close> prints for a value.\<close>

fun typeName :: "any \<Rightarrow> string" where
  "typeName (AString s) = ''string''"
| "typeName (AInt n) = ''int64''"
| "typeName (ABool b) = ''bool''"
| "typeName ANil = ''<nil>''"

text \<open>
  Modelled from the spec: \<open>builders.Client\<close> is not among the sources. The spec: the
  client owns the live connection handle; a catalog switch replaces the handle, and the
  client closes the previous handle after the swap. Here: the live handle and the handles
  closed so far.
\<close>

record 'db Client =
  live :: 'db
  closed :: "'db list"

definition NewClient :: "'db \<Rightarrow> 'db Client" where
  "NewClient h = \<lparr> live = h, closed = [] \<rparr>"

definition Swap :: "'db Client \<Rightarrow> 'db \<Rightarrow> 'db Client" where
  "Swap cl h = \<lparr> live = h, closed = closed cl @ [live cl] \<rparr>"

text \<open>
  What the libraries return is a parameter: \<open>url.Parse\<close> and \<open>URL.String\<close>,
  \<open>sql.Open\<close> (driver name, data source name), and the query method of the client,
  \<open>QueryUntilNotEmpty\<close>, on a live handle.
\<close>

record 'db backend =
  url_Parse :: "string \<Rightarrow> err + URL"
  url_String :: "URL \<Rightarrow> string"
  sql_Open :: "string \<Rightarrow> string \<Rightarrow> err + 'db"
  QueryUntilNotEmpty :: "'db \<Rightarrow> string \<Rightarrow> err + ResultStream"

text \<open>
  \<open>databricksDriver\<close>. The fields \<open>c\<close> and \<open>connectionURL\<close> are pointers that nothing else
  holds: the record keeps what they point to.
\<close>

record 'db databricksDriver =
  c :: "'db Client"
  connectionURL :: URL
  currentCatalog :: string

definition Query :: "'db backend \<Rightarrow> 'db databricksDriver \<Rightarrow> string \<Rightarrow> err + ResultStream" where
  "Query lib d query = QueryUntilNotEmpty lib (live (c d)) query"

text \<open>
  The loop of \<open>ListDatabases\<close>: each row's first value must be a string and is appended
  to \<open>available\<close>; an error of \<open>Next\<close> or a value of another type ends the loop with an
  error; \<open>row[0]\<close> on an empty row panics.
\<close>

fun readCatalogs :: "ResultStream \<Rightarrow> string list \<Rightarrow> (err + string list) outcome" where
  "readCatalogs [] available = Done (Inr available)"
| "readCatalogs (Inl e # rows) available = Done (Inl e)"
| "readCatalogs (Inr row # rows) available =
     (case index row 0 of
        Inl p \<Rightarrow> Panic p
      | Inr v \<Rightarrow>
          (case v of
             AString catalog \<Rightarrow> readCatalogs rows (available @ [catalog])
           | _ \<Rightarrow> Done (Inl (ErrorString (''expected string, got '' @ typeName v)))))"

text \<open>
  \<open>ListDatabases\<close> returns \<open>(current, available, err)\<close>: on an error the empty string,
  no list and the error; otherwise the driver's current catalog and the catalogs read.
\<close>

definition ListDatabases ::
  "'db backend \<Rightarrow> 'db databricksDriver \<Rightarrow> (string \<times> string list \<times> err option) outcome"
where
  "ListDatabases lib d =
     (case Query lib d ''SHOW CATALOGS;'' of
        Inl e \<Rightarrow> Done ([], [], Some e)
      | Inr rows \<Rightarrow>
          (case readCatalogs rows [] of
             Panic p \<Rightarrow> Panic p
           | Done (Inl e) \<Rightarrow> Done ([], [], Some e)
           | Done (Inr available) \<Rightarrow> Done (currentCatalog d, available, None)))"

text \<open>
  \<open>SelectDatabase\<close>: the catalog parameter of the stored URL is set and the URL's query
  is written back; then the connection is opened on the printed URL. On an error the
  method returns it, wrapped; otherwise it records the name and swaps the handle. The
  result is the error (or nil) and the driver after the call.
\<close>

definition SelectDatabase ::
  "'db backend \<Rightarrow> 'db databricksDriver \<Rightarrow> string \<Rightarrow> err option \<times> 'db databricksDriver"
where
  "SelectDatabase lib d0 name =
     (let q = Values_Set (URL_Query (connectionURL d0)) ''catalog'' name;
          d = d0\<lparr>connectionURL := (connectionURL d0)\<lparr>RawQuery := Values_Encode q\<rparr>\<rparr>
      in case sql_Open lib ''databricks'' (url_String lib (connectionURL d)) of
           Inl e \<Rightarrow> (Some (WrapError ''error switching catalog: %w'' e), d)
         | Inr h \<Rightarrow> (None, d\<lparr>currentCatalog := name, c := Swap (c d) h\<rparr>))"


text \<open>\<open>getDatabricksStructureType\<close>: a switch on the kind string, with a default.\<close>

definition getDatabricksStructureType :: "string \<Rightarrow> StructureType" where
  "getDatabricksStructureType typ =
     (if typ = ''TABLE'' \<or> typ = ''BASE TABLE'' \<or> typ = ''SYSTEM TABLE'' then StructureTypeTable
      else if typ = ''VIEW'' \<or> typ = ''SYSTEM VIEW'' then StructureTypeView
      else if typ = ''MATERIALIZED_VIEW'' then StructureTypeMaterializedView
      else if typ = ''STREAMING_TABLE'' then StructureTypeStreamingTable
      else if typ = ''MANAGED'' then StructureTypeManaged
      else StructureTypeNone)"

section \<open>adapters: the Databricks adapter\<close>

text \<open>
  \<open>Connect\<close>: parse the connection string, open the connection on the printed URL, read
  the catalog parameter; each step can end the call with an error.
\<close>

definition Connect :: "'db backend \<Rightarrow> string \<Rightarrow> err + 'db databricksDriver" where
  "Connect lib connectionURL' =
     (case url_Parse lib connectionURL' of
        Inl e \<Rightarrow> Inl (WrapError ''failed to parse connection string: %w: '' e)
      | Inr u \<Rightarrow>
          (case sql_Open lib ''databricks'' (url_String lib u) of
             Inl e \<Rightarrow> Inl (WrapError ''unable to connect to databricks: %w'' e)
           | Inr h \<Rightarrow>
               (let currentCatalog' = Values_Get (URL_Query u) ''catalog''
                in if currentCatalog' = []
                   then Inl (ErrorString ''required parameter '?catalog=<catalog>' is missing'')
                   else Inr \<lparr> c = NewClient h, connectionURL = u, currentCatalog = currentCatalog' \<rparr>)))"


text \<open>
  \<open>GetHelpers\<close>: two calls of \<open>fmt.Sprintf\<close> on fixed formats, with the schema and the
  table name as operands, returned as a map with the keys "List" and "Columns". The second
  format is a raw string literal: it starts with a line break, its third line ends in a
  blank, and its last line starts with a tab.
\<close>

definition listFormat :: string where
  "listFormat = ''SELECT * FROM %s.%s LIMIT 100;''"

definition columnsFormat :: string where
  "columnsFormat =
     ''\<newline>SELECT *\<newline>FROM information_schema.column\<newline>WHERE table_schema = '%s' \<newline>''
     @ [CHR 0x09] @ ''AND table_name = '%s';''"

definition GetHelpers :: "TableOptions \<Rightarrow> (string \<rightharpoonup> string)" where
  "GetHelpers opts =
     (let list = Sprintf listFormat [Schema opts, Table opts];
          columns = Sprintf columnsFormat [Schema opts, Table opts]
      in [''List'' \<mapsto> list, ''Columns'' \<mapsto> columns])"

text \<open>
  A library for concrete runs. Connection strings have the form of the driver's comment,
  \<open>token:[my_token]@[hostname]:[port]/[endpoint http path]?param=value\<close>: the scheme
  is the text before the first colon, the rest up to the question mark is opaque, the
  query follows. A handle is the data source name it was opened on. In \<open>demo_backend\<close>
  every open succeeds; in \<open>offline_backend\<close> every open fails.
\<close>

definition demo_Parse :: "string \<Rightarrow> err + URL" where
  "demo_Parse s =
     (case Cut s CHR ''?'' of
        (front, query) \<Rightarrow>
          (case Cut front CHR '':'' of
             (scheme, rest) \<Rightarrow>
               if rest = [] then Inl (LibError ''missing protocol scheme'')
               else Inr \<lparr> Scheme = scheme, Opaque = rest, User = [], Host = [], Path = [],
                          RawQuery = query, Fragment = [] \<rparr>))"

definition demo_String :: "URL \<Rightarrow> string" where
  "demo_String u =
     Scheme u @ '':'' @ Opaque u @ (if RawQuery u = [] then [] else CHR ''?'' # RawQuery u)"

definition demo_backend :: "string backend" where
  "demo_backend =
     \<lparr> url_Parse = demo_Parse,
       url_String = demo_String,
       sql_Open = (\<lambda>driverName dsn. Inr dsn),
       QueryUntilNotEmpty = (\<lambda>h query. Inr [Inr [AString ''main''], Inr [AString ''dev'']]) \<rparr>"

definition offline_backend :: "string backend" where
  "offline_backend =
     \<lparr> url_Parse = demo_Parse,
       url_String = demo_String,
       sql_Open = (\<lambda>driverName dsn. Inl (LibError ''invalid DSN'')),
       QueryUntilNotEmpty = (\<lambda>h query. Inr [Inr [AString ''main''], Inr [AString ''dev'']]) \<rparr>"

definition demo_driver :: "string databricksDriver" where
  "demo_driver =
     \<lparr> c = NewClient ''token:t@host:443/sql/1.0/warehouses/w?catalog=main'',
       connectionURL = \<lparr> Scheme = ''token'', Opaque = ''t@host:443/sql/1.0/warehouses/w'',
                         User = [], Host = [], Path = [], RawQuery = ''catalog=main'',
                         Fragment = [] \<rparr>,
       currentCatalog = ''main'' \<rparr>"


section \<open>Properties\<close>

subsection \<open>The library models on concrete inputs\<close>

text \<open>
  The models of \<open>strconv.Atoi\<close>, \<open>fmt.Sprintf\<close> and the query values of \<open>net/url\<close>, run
  on inputs whose results the libraries document.
\<close>

lemma Atoi_examples:
  "Atoi ''42'' = Inr 42"
  "Atoi ''-7'' = Inr (- 7)"
  "Atoi ''+7'' = Inr 7"
  "Atoi [] = Inl (NumError ''Atoi'' [] ''invalid syntax'')"
  "Atoi ''-'' = Inl (NumError ''Atoi'' ''-'' ''invalid syntax'')"
  "Atoi ''1_0'' = Inl (NumError ''Atoi'' ''1_0'' ''invalid syntax'')"
  "Atoi ''9223372036854775807'' = Inr 9223372036854775807"
  "Atoi ''9223372036854775808''
   = Inl (NumError ''Atoi'' ''9223372036854775808'' ''value out of range'')"
  "Atoi ''-9223372036854775808'' = Inr (- 9223372036854775808)"
  "Atoi ''9223372036854775808x''
   = Inl (NumError ''Atoi'' ''9223372036854775808x'' ''invalid syntax'')"
  "Atoi ''99999999999999999999x''
   = Inl (NumError ''Atoi'' ''99999999999999999999x'' ''value out of range'')"
  by (simp_all add: Atoi_def isDigit_def)

lemma Sprintf_examples:
  "Sprintf ''%s.%s'' [''a'', ''%s''] = ''a.%s''"
  "Sprintf ''100%% %s'' [''sure''] = ''100% sure''"
  "Sprintf ''%s and %s'' [''one''] = ''one and %!s(MISSING)''"
  "Sprintf ''done'' [''x''] = ''done%!(EXTRA string=x)''"
  by simp_all

lemma Values_examples:
  "ParseQuery ''catalog=main&schema=a%20b&x=1&x=2&bad=%zz&&flag''
   = [(''catalog'', [''main'']), (''schema'', [''a b'']), (''x'', [''1'', ''2'']), (''flag'', [[]])]"
  "Values_Get (ParseQuery ''catalog=&catalog=x'') ''catalog'' = []"
  "Values_Get (ParseQuery ''schema=s'') ''catalog'' = []"
  "Values_Encode (Values_Set (ParseQuery ''schema=a%20b&catalog=main'') ''catalog'' ''dev/1 x'')
   = ''catalog=dev%2F1+x&schema=a+b''"
  by code_simp+

subsection \<open>The kind classifier\<close>

text \<open>
  C4. The kind classifier is a total function from strings to structure types: it sends
  "TABLE", "BASE TABLE" and "SYSTEM TABLE" to Table, "VIEW" and "SYSTEM VIEW" to View,
  "MATERIALIZED_VIEW" to MaterializedView, "STREAMING_TABLE" to StreamingTable, "MANAGED"
  to Managed, and every other string to None.
\<close>

theorem getDatabricksStructureType_total:
  "getDatabricksStructureType ''TABLE'' = StructureTypeTable
   \<and> getDatabricksStructureType ''BASE TABLE'' = StructureTypeTable
   \<and> getDatabricksStructureType ''SYSTEM TABLE'' = StructureTypeTable
   \<and> getDatabricksStructureType ''VIEW'' = StructureTypeView
   \<and> getDatabricksStructureType ''SYSTEM VIEW'' = StructureTypeView
   \<and> getDatabricksStructureType ''MATERIALIZED_VIEW'' = StructureTypeMaterializedView
   \<and> getDatabricksStructureType ''STREAMING_TABLE'' = StructureTypeStreamingTable
   \<and> getDatabricksStructureType ''MANAGED'' = StructureTypeManaged
   \<and> (\<forall>typ. typ \<notin> {''TABLE'', ''BASE TABLE'', ''SYSTEM TABLE'', ''VIEW'', ''SYSTEM VIEW'',
                    ''MATERIALIZED_VIEW'', ''STREAMING_TABLE'', ''MANAGED''}
        \<longrightarrow> getDatabricksStructureType typ = StructureTypeNone)"
  by (simp add: getDatabricksStructureType_def)

theorem getDatabricksStructureType_total_witness:
  "''EXTERNAL'' \<notin> {''TABLE'', ''BASE TABLE'', ''SYSTEM TABLE'', ''VIEW'', ''SYSTEM VIEW'',
                    ''MATERIALIZED_VIEW'', ''STREAMING_TABLE'', ''MANAGED''}
   \<and> getDatabricksStructureType ''EXTERNAL'' = StructureTypeNone
   \<and> getDatabricksStructureType ''table'' = StructureTypeNone
   \<and> getDatabricksStructureType ''BASE TABLE'' = StructureTypeTable"
  using getDatabricksStructureType_total by simp

subsection \<open>Helper queries\<close>

text \<open>A format without the verb character is copied as it is, up to the next verb.\<close>

lemma Sprintf_plain_prefix:
  "CHR ''%'' \<notin> set pre \<Longrightarrow> fs \<noteq> [] \<Longrightarrow> Sprintf (pre @ fs) args = pre @ Sprintf fs args"
proof (induction pre)
  case Nil
  then show ?case by simp
next
  case (Cons ch pre)
  from Cons.prems obtain d ds where eq: "pre @ fs = d # ds"
    by (cases "pre @ fs") auto
  from Cons.prems have "ch \<noteq> CHR ''%''" by auto
  then have "Sprintf ((ch # pre) @ fs) args = ch # Sprintf (pre @ fs) args"
    using eq by simp
  with Cons show ?case by simp
qed

lemma Sprintf_plain: "CHR ''%'' \<notin> set pre \<Longrightarrow> Sprintf pre [] = pre"
proof (induction pre)
  case Nil
  show ?case by simp
next
  case (Cons ch pre)
  then have c: "ch \<noteq> CHR ''%''" and ih: "Sprintf pre [] = pre" by auto
  show ?case
  proof (cases pre)
    case Nil
    with c show ?thesis by simp
  next
    case (Cons d ds)
    with c ih show ?thesis by simp
  qed
qed

lemma Sprintf_s: "Sprintf (CHR ''%'' # CHR ''s'' # fs) (a # as) = a @ Sprintf fs as"
  by simp

text \<open>
  Two operands in a format with exactly two \<open>%s\<close> verbs: the result is the three
  literal pieces of the format with the operands between them, byte for byte.
\<close>

lemma Sprintf_two_operands:
  assumes "CHR ''%'' \<notin> set pre" "CHR ''%'' \<notin> set mid" "CHR ''%'' \<notin> set suf"
  shows "Sprintf (pre @ ''%s'' @ mid @ ''%s'' @ suf) [a, b] = pre @ a @ mid @ b @ suf"
proof -
  have 1: "Sprintf (pre @ ''%s'' @ mid @ ''%s'' @ suf) [a, b]
           = pre @ Sprintf (''%s'' @ mid @ ''%s'' @ suf) [a, b]"
    using assms(1) by (rule Sprintf_plain_prefix) simp
  have 2: "Sprintf (''%s'' @ mid @ ''%s'' @ suf) [a, b] = a @ Sprintf (mid @ ''%s'' @ suf) [b]"
    by simp
  have 3: "Sprintf (mid @ ''%s'' @ suf) [b] = mid @ Sprintf (''%s'' @ suf) [b]"
    using assms(2) by (rule Sprintf_plain_prefix) simp
  have 4: "Sprintf (''%s'' @ suf) [b] = b @ Sprintf suf []"
    by simp
  have 5: "Sprintf suf [] = suf"
    using assms(3) by (rule Sprintf_plain)
  show ?thesis by (simp only: 1 2 3 4 5)
qed

text \<open>
  C8. For every TableOptions, GetHelpers returns a map whose keys are exactly "List" and
  "Columns"; each value is the fixed query text with the schema name and the table name
  put in as they are, whatever bytes they hold: nothing is parsed, checked or escaped.
\<close>

theorem GetHelpers_verbatim:
  "dom (GetHelpers opts) = {''List'', ''Columns''}
   \<and> GetHelpers opts ''List''
       = Some (''SELECT * FROM '' @ Schema opts @ ''.'' @ Table opts @ '' LIMIT 100;'')
   \<and> GetHelpers opts ''Columns''
       = Some (''\<newline>SELECT *\<newline>FROM information_schema.column\<newline>WHERE table_schema = ''
               @ [CHR 0x27] @ Schema opts @ [CHR 0x27, CHR '' '', CHR 0x0A, CHR 0x09]
               @ ''AND table_name = '' @ [CHR 0x27] @ Table opts @ [CHR 0x27] @ '';'')"
proof -
  have l: "Sprintf listFormat [Schema opts, Table opts]
           = ''SELECT * FROM '' @ Schema opts @ ''.'' @ Table opts @ '' LIMIT 100;''"
    using Sprintf_two_operands[of "''SELECT * FROM ''" "''.''" "'' LIMIT 100;''"
            "Schema opts" "Table opts"]
    by (simp add: listFormat_def)
  have c: "Sprintf columnsFormat [Schema opts, Table opts]
           = ''\<newline>SELECT *\<newline>FROM information_schema.column\<newline>WHERE table_schema = ''
               @ [CHR 0x27] @ Schema opts @ [CHR 0x27, CHR '' '', CHR 0x0A, CHR 0x09]
               @ ''AND table_name = '' @ [CHR 0x27] @ Table opts @ [CHR 0x27] @ '';''"
    using Sprintf_two_operands[of
            "''\<newline>SELECT *\<newline>FROM information_schema.column\<newline>WHERE table_schema = '' @ [CHR 0x27]"
            "[CHR 0x27, CHR '' '', CHR 0x0A, CHR 0x09] @ ''AND table_name = '' @ [CHR 0x27]"
            "[CHR 0x27] @ '';''"
            "Schema opts" "Table opts"]
    by (simp add: columnsFormat_def)
  have d: "dom (GetHelpers opts) = {''List'', ''Columns''}"
    by (auto simp: GetHelpers_def Let_def)
  have "GetHelpers opts ''List'' = Some (Sprintf listFormat [Schema opts, Table opts])"
    by (simp add: GetHelpers_def Let_def)
  moreover have "GetHelpers opts ''Columns'' = Some (Sprintf columnsFormat [Schema opts, Table opts])"
    by (simp add: GetHelpers_def Let_def)
  ultimately show ?thesis using l c d by simp
qed

theorem GetHelpers_verbatim_witness:
  "dom (GetHelpers \<lparr> Schema = ''a'b'', Table = ''%s;--'' \<rparr>) = {''List'', ''Columns''}
   \<and> GetHelpers \<lparr> Schema = ''a'b'', Table = ''%s;--'' \<rparr> ''List''
       = Some ''SELECT * FROM a'b.%s;-- LIMIT 100;''"
  using GetHelpers_verbatim[of "\<lparr> Schema = ''a'b'', Table = ''%s;--'' \<rparr>"] by simp

subsection \<open>The handlers of the host functions\<close>

lemma Sprintf_one_operand:
  assumes "CHR ''%'' \<notin> set pre" "CHR ''%'' \<notin> set suf"
  shows "Sprintf (pre @ ''%s'' @ suf) [a] = pre @ a @ suf"
proof -
  have "Sprintf (pre @ ''%s'' @ suf) [a] = pre @ Sprintf (''%s'' @ suf) [a]"
    using assms(1) by (rule Sprintf_plain_prefix) simp
  moreover have "Sprintf (''%s'' @ suf) [a] = a @ Sprintf suf []"
    by simp
  moreover have "Sprintf suf [] = suf"
    using assms(2) by (rule Sprintf_plain)
  ultimately show ?thesis by simp
qed

lemma not_registered_message:
  "Sprintf ''client with id %s not registered'' [cid] = ''client with id '' @ cid @ '' not registered''"
  using Sprintf_one_operand[of "''client with id ''" "'' not registered''" cid] by simp

lemma unsupported_message:
  "Sprintf unsupportedFormat [typ]
   = ''database of type '' @ [CHR 0x22] @ typ @ [CHR 0x22] @ '' is not supported''"
  using Sprintf_one_operand[of "''database of type '' @ [CHR 0x22]"
          "[CHR 0x22] @ '' is not supported''" "typ"]
  by (simp add: unsupportedFormat_def)

lemma index_first_three:
  "index (a # xs) 0 = Inr a"
  "index (a # b # xs) (Suc 0) = Inr b"
  "index (a # b # x # xs) 2 = Inr x"
  by (simp_all add: index_def)

lemma index_past_end: "index [a, b] 2 = Inl (IndexOutOfRange 2 2)"
  by (simp add: index_def)

text \<open>
  The guard of \<open>Dbee_register_client\<close> asks for three arguments and the handler reads
  three: it never panics. The guard of \<open>Dbee_execute\<close> asks for two and the handler
  reads three: it panics on exactly the lists of length two.
\<close>

lemma Dbee_register_client_no_panic: "fst (Dbee_register_client lib st args) \<noteq> Panic p"
  by (auto simp: Dbee_register_client_def Let_def index_def split: sum.splits prod.splits)

lemma Dbee_execute_panics_iff:
  "(\<exists>p. fst (Dbee_execute lib st args) = Panic p) = (length args = 2)"
  by (auto simp: Dbee_execute_def Let_def index_def split: sum.splits option.splits)

text \<open>
  C5. Stated property: once the argument-count guard of the \<open>Dbee_execute\<close> handler has
  passed, every index access into the argument list is in bounds. The guard rejects fewer
  than two arguments only; with exactly two, the guard passes and the read of the third
  argument is out of range: the handler panics, with index 2 and length 2.
\<close>

theorem Dbee_execute_two_arguments_panic:
  "\<not> length [''conn1'', ''SELECT 1''] < 2
   \<and> Dbee_execute lib st [''conn1'', ''SELECT 1'']
       = (Panic (IndexOutOfRange 2 2), st\<lparr>calls := calls st @ [Log_Print ''calling Dbee_execute'']\<rparr>)"
  by (simp add: Dbee_execute_def Let_def index_first_three index_past_end record_call_def)

text \<open>
  C6. A registration request whose type string is neither "postgres" nor "redis" returns
  the error of the default branch, and the registry is as it was: no entry is added or
  changed. Only the log line is written.
\<close>

theorem register_unsupported_type_keeps_registry:
  assumes "typ \<noteq> ''postgres''" and "typ \<noteq> ''redis''"
  shows "Dbee_register_client lib st (cid # url # typ # rest)
         = (Done (Some (ErrorString
               (''database of type '' @ [CHR 0x22] @ typ @ [CHR 0x22] @ '' is not supported''))),
            st\<lparr>calls := calls st @ [Log_Print ''calling Dbee_register_client'']\<rparr>)
       \<and> clientMap (snd (Dbee_register_client lib st (cid # url # typ # rest))) = clientMap st"
  using assms
  by (simp add: Dbee_register_client_def new_client_def Let_def index_first_three
      record_call_def unsupported_message)

theorem register_unsupported_type_keeps_registry_witness:
  "''databricks'' \<noteq> ''postgres'' \<and> ''databricks'' \<noteq> ''redis''
   \<and> Dbee_register_client demo_clients demo_state [''conn1'', ''token:t@host:443/sql'', ''databricks'']
       = (Done (Some (ErrorString
             (''database of type '' @ [CHR 0x22] @ ''databricks'' @ [CHR 0x22] @ '' is not supported''))),
          \<lparr> clientMap = [''conn1'' \<mapsto> 7], calls = [Log_Print ''calling Dbee_register_client''] \<rparr>)
   \<and> clientMap (snd (Dbee_register_client demo_clients demo_state
         [''conn1'', ''token:t@host:443/sql'', ''databricks''])) ''conn1'' = Some 7"
  using register_unsupported_type_keeps_registry[of "''databricks''" demo_clients demo_state
          "''conn1''" "''token:t@host:443/sql''" "[]"]
  by (simp add: demo_state_def)

text \<open>
  C7, as the spec has it: for every id absent from the registry the execute operation
  fails with the unknown-connection error. The handler checks its arguments before it
  looks the id up: with an absent id and a third argument that is not a number, the error
  is the one of \<open>strconv.Atoi\<close>, not the unknown-connection error.
\<close>

theorem execute_unknown_id_counterexample:
  "clientMap demo_state ''nobody'' = None
   \<and> Dbee_execute demo_clients demo_state [''nobody'', ''SELECT 1'', ''x'']
       = (Done (Some (NumError ''Atoi'' ''x'' ''invalid syntax'')),
          \<lparr> clientMap = [''conn1'' \<mapsto> 7], calls = [Log_Print ''calling Dbee_execute''] \<rparr>)
   \<and> fst (Dbee_execute demo_clients demo_state [''nobody'', ''SELECT 1'', ''x''])
       \<noteq> Done (Some (ErrorString ''client with id nobody not registered''))"
  by (simp add: Dbee_execute_def Let_def index_first_three record_call_def demo_state_def
      Atoi_def isDigit_def)

text \<open>
  C7, amended. For every id absent from the registry, the schema operation fails with the
  unknown-connection error. The execute operation, called with the id, a query and a
  buffer number, fails with the unknown-connection error when the buffer number is a
  number (\<open>strconv.Atoi\<close> accepts it) and with the error of \<open>strconv.Atoi\<close> when it is not;
  called with the id alone it fails with the error of the argument-count guard. In each
  of these cases the handler calls no method of any client and leaves the registry as it
  was: the state after the call is the state before it with the log line added.
\<close>

theorem unknown_id_fails_without_query:
  assumes "clientMap st cid = None"
  shows "(Atoi arg2 = Inr bufnr \<longrightarrow>
            Dbee_execute lib st (cid # query # arg2 # rest)
            = (Done (Some (ErrorString (''client with id '' @ cid @ '' not registered''))),
               st\<lparr>calls := calls st @ [Log_Print ''calling Dbee_execute'']\<rparr>))
       \<and> (Atoi arg2 = Inl e \<longrightarrow>
            Dbee_execute lib st (cid # query # arg2 # rest)
            = (Done (Some e), st\<lparr>calls := calls st @ [Log_Print ''calling Dbee_execute'']\<rparr>))
       \<and> Dbee_execute lib st [cid]
         = (Done (Some (ErrorString ''not enough arguments passed to Dbee_execute'')),
            st\<lparr>calls := calls st @ [Log_Print ''calling Dbee_execute'']\<rparr>)
       \<and> Dbee_get_schema lib st (cid # rest')
         = (Done (Inl (ErrorString (''client with id '' @ cid @ '' not registered''))),
            st\<lparr>calls := calls st @ [Log_Print ''calling Dbee_get_schema'']\<rparr>)"
  using assms
  by (simp add: Dbee_execute_def Dbee_get_schema_def Let_def index_first_three
      record_call_def not_registered_message)

lemma Atoi_12: "Atoi ''12'' = Inr 12"
  by (simp add: Atoi_def isDigit_def)

lemma Atoi_x: "Atoi ''x'' = Inl (NumError ''Atoi'' ''x'' ''invalid syntax'')"
  by (simp add: Atoi_def isDigit_def Let_def)

theorem unknown_id_fails_without_query_witness:
  "clientMap demo_state ''nobody'' = None
   \<and> Atoi ''12'' = Inr 12
   \<and> Dbee_execute demo_clients demo_state [''nobody'', ''SELECT 1'', ''12'']
       = (Done (Some (ErrorString ''client with id nobody not registered'')),
          \<lparr> clientMap = [''conn1'' \<mapsto> 7], calls = [Log_Print ''calling Dbee_execute''] \<rparr>)
   \<and> Atoi ''x'' = Inl (NumError ''Atoi'' ''x'' ''invalid syntax'')
   \<and> Dbee_execute demo_clients demo_state [''nobody'', ''SELECT 1'', ''x'']
       = (Done (Some (NumError ''Atoi'' ''x'' ''invalid syntax'')),
          \<lparr> clientMap = [''conn1'' \<mapsto> 7], calls = [Log_Print ''calling Dbee_execute''] \<rparr>)
   \<and> Dbee_execute demo_clients demo_state [''nobody'']
       = (Done (Some (ErrorString ''not enough arguments passed to Dbee_execute'')),
          \<lparr> clientMap = [''conn1'' \<mapsto> 7], calls = [Log_Print ''calling Dbee_execute''] \<rparr>)
   \<and> Dbee_get_schema demo_clients demo_state [''nobody'']
       = (Done (Inl (ErrorString ''client with id nobody not registered'')),
          \<lparr> clientMap = [''conn1'' \<mapsto> 7], calls = [Log_Print ''calling Dbee_get_schema''] \<rparr>)"
proof -
  have absent: "clientMap demo_state ''nobody'' = None"
    by (simp add: demo_state_def)
  show ?thesis
    using absent Atoi_12 Atoi_x
      unknown_id_fails_without_query[OF absent, of "''12''" 12 demo_clients "''SELECT 1''" "[]"
        "NumError ''Atoi'' ''x'' ''invalid syntax''" "[]"]
      unknown_id_fails_without_query[OF absent, of "''x''" 0 demo_clients "''SELECT 1''" "[]"
        "NumError ''Atoi'' ''x'' ''invalid syntax''" "[]"]
    by (simp add: demo_state_def)
qed

text \<open>
  C9. A successful register call for an id that the registry already holds: afterwards the
  registry maps the id to the client just constructed, every other id is as before, and
  the handler has called the constructor and nothing else: the client it replaces is not
  closed.
\<close>

theorem register_existing_id_replaces_client:
  assumes "clientMap st cid = Some old"
    and "typ = ''postgres'' \<and> clients_NewPostgres lib url = Inr client \<and> ev = Call_NewPostgres url
         \<or> typ = ''redis'' \<and> clients_NewRedis lib url = Inr client \<and> ev = Call_NewRedis url"
  shows "Dbee_register_client lib st (cid # url # typ # rest)
         = (Done None,
            st\<lparr>calls := calls st @ [Log_Print ''calling Dbee_register_client'', ev],
               clientMap := (clientMap st)(cid \<mapsto> client)\<rparr>)
       \<and> clientMap (snd (Dbee_register_client lib st (cid # url # typ # rest))) cid = Some client
       \<and> Call_Close old \<notin> set (drop (length (calls st))
             (calls (snd (Dbee_register_client lib st (cid # url # typ # rest)))))"
  using assms(2)
  by (auto simp: Dbee_register_client_def new_client_def Let_def index_first_three record_call_def)

theorem register_existing_id_replaces_client_witness:
  "clientMap demo_state ''conn1'' = Some 7
   \<and> clients_NewPostgres demo_clients ''postgres://h/db'' = Inr 1
   \<and> Dbee_register_client demo_clients demo_state [''conn1'', ''postgres://h/db'', ''postgres'']
       = (Done None,
          \<lparr> clientMap = [''conn1'' \<mapsto> 1],
            calls = [Log_Print ''calling Dbee_register_client'', Call_NewPostgres ''postgres://h/db''] \<rparr>)"
proof -
  have present: "clientMap demo_state ''conn1'' = Some 7"
    by (simp add: demo_state_def)
  have made: "clients_NewPostgres demo_clients ''postgres://h/db'' = Inr 1"
    by (simp add: demo_clients_def)
  show ?thesis
    using present made
      register_existing_id_replaces_client[OF present, of "''postgres''" demo_clients
        "''postgres://h/db''" 1 "Call_NewPostgres ''postgres://h/db''" "[]"]
    by (simp add: demo_state_def)
qed

subsection \<open>Switching the catalog\<close>

text \<open>
  What a failed \<open>SelectDatabase\<close> leaves behind, for every library, driver and name: the
  current catalog and the client are those of before; the stored URL has the query that
  the method wrote into it before it opened the connection.
\<close>

lemma SelectDatabase_failure_state:
  assumes "fst (SelectDatabase lib d name) = Some e"
  shows "currentCatalog (snd (SelectDatabase lib d name)) = currentCatalog d
       \<and> c (snd (SelectDatabase lib d name)) = c d
       \<and> connectionURL (snd (SelectDatabase lib d name))
         = (connectionURL d)\<lparr>RawQuery :=
              Values_Encode (Values_Set (URL_Query (connectionURL d)) ''catalog'' name)\<rparr>"
  using assms by (auto simp: SelectDatabase_def Let_def split: sum.splits)

lemma set_catalog_dev:
  "Values_Encode (Values_Set (URL_Query (connectionURL demo_driver)) ''catalog'' ''dev'')
   = ''catalog=dev''"
  by (simp add: demo_driver_def URL_Query_def Values_Encode_def Values_Set_def ParseQuery_def
      addPiece_def valuesOf_def QueryEscape_def escapeByte_def shouldEscape_def isAlnum_def)

lemma SelectDatabase_demo:
  "SelectDatabase demo_backend demo_driver ''dev''
   = (None,
      \<lparr> c = \<lparr> live = ''token:t@host:443/sql/1.0/warehouses/w?catalog=dev'',
               closed = [''token:t@host:443/sql/1.0/warehouses/w?catalog=main''] \<rparr>,
        connectionURL = \<lparr> Scheme = ''token'', Opaque = ''t@host:443/sql/1.0/warehouses/w'',
                          User = [], Host = [], Path = [], RawQuery = ''catalog=dev'',
                          Fragment = [] \<rparr>,
        currentCatalog = ''dev'' \<rparr>)"
  by (simp add: SelectDatabase_def Let_def set_catalog_dev demo_backend_def)
     (simp add: demo_driver_def demo_String_def Swap_def NewClient_def)

lemma SelectDatabase_offline:
  "SelectDatabase offline_backend demo_driver ''dev''
   = (Some (WrapError ''error switching catalog: %w'' (LibError ''invalid DSN'')),
      \<lparr> c = \<lparr> live = ''token:t@host:443/sql/1.0/warehouses/w?catalog=main'', closed = [] \<rparr>,
        connectionURL = \<lparr> Scheme = ''token'', Opaque = ''t@host:443/sql/1.0/warehouses/w'',
                          User = [], Host = [], Path = [], RawQuery = ''catalog=dev'',
                          Fragment = [] \<rparr>,
        currentCatalog = ''main'' \<rparr>)"
  by (simp add: SelectDatabase_def Let_def set_catalog_dev offline_backend_def)
     (simp add: demo_driver_def NewClient_def)

text \<open>
  C1. Stated property: when \<open>SelectDatabase\<close> fails, the driver's state is as before the
  call: the current catalog, the stored connection URL and the live handle. The method writes
  the new catalog into the stored URL before it opens the connection and returns on the
  error without writing the old query back. On a driver connected with catalog "main",
  a failed switch to "dev" keeps the current catalog "main" and the client, and leaves the
  stored URL with the query "catalog=dev".
\<close>

theorem SelectDatabase_failure_rewrites_url:
  "fst (SelectDatabase offline_backend demo_driver ''dev'')
     = Some (WrapError ''error switching catalog: %w'' (LibError ''invalid DSN''))
   \<and> currentCatalog (snd (SelectDatabase offline_backend demo_driver ''dev'')) = ''main''
   \<and> c (snd (SelectDatabase offline_backend demo_driver ''dev'')) = c demo_driver
   \<and> RawQuery (connectionURL demo_driver) = ''catalog=main''
   \<and> RawQuery (connectionURL (snd (SelectDatabase offline_backend demo_driver ''dev'')))
       = ''catalog=dev''"
  by (simp add: SelectDatabase_offline) (simp add: demo_driver_def NewClient_def)

text \<open>\<open>ListDatabases\<close>, when it returns without an error, returns the driver's current catalog.\<close>

lemma ListDatabases_current:
  "ListDatabases lib d = Done (cur, avail, None) \<Longrightarrow> cur = currentCatalog d"
  by (auto simp: ListDatabases_def split: sum.splits outcome.splits)

lemma ListDatabases_demo:
  "ListDatabases demo_backend (snd (SelectDatabase demo_backend demo_driver ''dev''))
   = Done (''dev'', [''main'', ''dev''], None)"
  by (simp add: SelectDatabase_demo) (simp add: ListDatabases_def Query_def demo_backend_def index_def)

text \<open>
  C2. When \<open>SelectDatabase\<close> succeeds, the driver's current catalog is the name, so that a
  \<open>ListDatabases\<close> that returns without an error returns the name as current; the client's
  live handle is the connection that the call opened. The handle is replaced only after
  the open has succeeded: when the call fails, the client is the one of before.
\<close>

theorem SelectDatabase_success:
  "(fst (SelectDatabase lib d name) = None \<longrightarrow>
      currentCatalog (snd (SelectDatabase lib d name)) = name
      \<and> (\<exists>h. sql_Open lib ''databricks''
                 (url_String lib (connectionURL (snd (SelectDatabase lib d name)))) = Inr h
             \<and> c (snd (SelectDatabase lib d name)) = Swap (c d) h
             \<and> live (c (snd (SelectDatabase lib d name))) = h)
      \<and> (\<forall>cur avail.
             ListDatabases lib (snd (SelectDatabase lib d name)) = Done (cur, avail, None)
             \<longrightarrow> cur = name))
   \<and> (fst (SelectDatabase lib d name) \<noteq> None \<longrightarrow> c (snd (SelectDatabase lib d name)) = c d)"
proof -
  let ?u = "(connectionURL d)\<lparr>RawQuery :=
              Values_Encode (Values_Set (URL_Query (connectionURL d)) ''catalog'' name)\<rparr>"
  show ?thesis
  proof (cases "sql_Open lib ''databricks'' (url_String lib ?u)")
    case (Inl e)
    then show ?thesis by (simp add: SelectDatabase_def Let_def)
  next
    case (Inr h)
    then have r: "SelectDatabase lib d name
                  = (None, d\<lparr>connectionURL := ?u, currentCatalog := name, c := Swap (c d) h\<rparr>)"
      by (simp add: SelectDatabase_def Let_def)
    have "\<forall>cur avail.
            ListDatabases lib (snd (SelectDatabase lib d name)) = Done (cur, avail, None)
            \<longrightarrow> cur = name"
      using ListDatabases_current[of lib "snd (SelectDatabase lib d name)"] r by auto
    then show ?thesis using r Inr by (simp add: Swap_def)
  qed
qed

theorem SelectDatabase_success_witness:
  "fst (SelectDatabase demo_backend demo_driver ''dev'') = None
   \<and> currentCatalog (snd (SelectDatabase demo_backend demo_driver ''dev'')) = ''dev''
   \<and> live (c (snd (SelectDatabase demo_backend demo_driver ''dev'')))
       = ''token:t@host:443/sql/1.0/warehouses/w?catalog=dev''
   \<and> ListDatabases demo_backend (snd (SelectDatabase demo_backend demo_driver ''dev''))
       = Done (''dev'', [''main'', ''dev''], None)
   \<and> fst (SelectDatabase offline_backend demo_driver ''dev'') \<noteq> None
   \<and> c (snd (SelectDatabase offline_backend demo_driver ''dev'')) = c demo_driver"
proof -
  have ok: "fst (SelectDatabase demo_backend demo_driver ''dev'') = None"
    by (simp add: SelectDatabase_demo)
  have off: "fst (SelectDatabase offline_backend demo_driver ''dev'') \<noteq> None"
    by (simp add: SelectDatabase_offline)
  have cat: "currentCatalog (snd (SelectDatabase demo_backend demo_driver ''dev'')) = ''dev''"
    using SelectDatabase_success[of demo_backend demo_driver "''dev''"] ok by blast
  have same: "c (snd (SelectDatabase offline_backend demo_driver ''dev'')) = c demo_driver"
    using SelectDatabase_success[of offline_backend demo_driver "''dev''"] off by blast
  have handle: "live (c (snd (SelectDatabase demo_backend demo_driver ''dev'')))
                = ''token:t@host:443/sql/1.0/warehouses/w?catalog=dev''"
    by (simp add: SelectDatabase_demo)
  show ?thesis using ok off cat same handle ListDatabases_demo by simp
qed

subsection \<open>Connecting\<close>

lemma Values_Get_cases:
  "Values_Get v key = (case map_of v key of None \<Rightarrow> [] | Some [] \<Rightarrow> [] | Some (x # xs) \<Rightarrow> x)"
  by (simp add: Values_Get_def valuesOf_def split: option.splits list.splits)

text \<open>
  C3. A connection string whose query has no "catalog" parameter, or has it with the
  empty string as its (first) value, makes \<open>Connect\<close> return an error and no driver; so
  does a string that does not parse. A string that parses, on which the open succeeds and
  whose "catalog" parameter is not empty, makes \<open>Connect\<close> return one driver, whose
  current catalog is the parameter's value.
\<close>

theorem Connect_requires_catalog:
  "((\<forall>u. url_Parse lib s = Inr u \<longrightarrow>
          map_of (URL_Query u) ''catalog'' = None
          \<or> (\<exists>vs. map_of (URL_Query u) ''catalog'' = Some ([] # vs)))
      \<longrightarrow> (\<exists>e. Connect lib s = Inl e))
   \<and> (url_Parse lib s = Inr u \<and> sql_Open lib ''databricks'' (url_String lib u) = Inr h
       \<and> map_of (URL_Query u) ''catalog'' = Some (v # vs) \<and> v \<noteq> []
      \<longrightarrow> Connect lib s = Inr \<lparr> c = NewClient h, connectionURL = u, currentCatalog = v \<rparr>)"
  by (auto simp: Connect_def Let_def Values_Get_cases split: sum.splits)

lemma demo_Parse_no_catalog:
  "demo_Parse ''token:t@host:443/sql/1.0/warehouses/w?schema=default''
   = Inr \<lparr> Scheme = ''token'', Opaque = ''t@host:443/sql/1.0/warehouses/w'', User = [],
            Host = [], Path = [], RawQuery = ''schema=default'', Fragment = [] \<rparr>"
  by (simp add: demo_Parse_def)

lemma demo_Parse_catalog:
  "demo_Parse ''token:t@host:443/sql/1.0/warehouses/w?catalog=main''
   = Inr (connectionURL demo_driver)"
  by (simp add: demo_Parse_def demo_driver_def)

lemma demo_queries:
  "map_of (ParseQuery ''schema=default'') ''catalog'' = None"
  "map_of (ParseQuery ''catalog=main'') ''catalog'' = Some [''main'']"
  by (simp_all add: ParseQuery_def addPiece_def valuesOf_def)

theorem Connect_requires_catalog_witness:
  "(\<exists>e. Connect demo_backend ''token:t@host:443/sql/1.0/warehouses/w?schema=default'' = Inl e)
   \<and> Connect demo_backend ''token:t@host:443/sql/1.0/warehouses/w?catalog=main'' = Inr demo_driver"
proof -
  have "\<exists>e. Connect demo_backend ''token:t@host:443/sql/1.0/warehouses/w?schema=default'' = Inl e"
    using Connect_requires_catalog[of demo_backend
            "''token:t@host:443/sql/1.0/warehouses/w?schema=default''"]
    by (simp add: demo_backend_def demo_Parse_no_catalog URL_Query_def demo_queries)
  moreover have "Connect demo_backend ''token:t@host:443/sql/1.0/warehouses/w?catalog=main''
                 = Inr demo_driver"
    using Connect_requires_catalog[of demo_backend
            "''token:t@host:443/sql/1.0/warehouses/w?catalog=main''" "connectionURL demo_driver"
            "''token:t@host:443/sql/1.0/warehouses/w?catalog=main''" "''main''" "[]"]
    by (simp add: demo_backend_def demo_Parse_catalog URL_Query_def)
       (simp add: demo_driver_def demo_String_def demo_queries)
  ultimately show ?thesis by simp
qed

end
